theory Spec2Isabelle
  imports Main
begin

section \<open>Python primitives used by the turn pipeline\<close>

text \<open>
  In this part a Python string is a \<open>string\<close>, a list of characters with code points below
  256. On these \<open>str.lower()\<close> works character by character: it adds 32 to the code points
  of \<open>A\<close> to \<open>Z\<close> (65 to 90) and of the capital letters of Latin-1 (192 to 222 without the
  multiplication sign 215), and leaves every other character alone. Text with other code
  points is treated in the section on Unicode text below.
\<close>

definition lower_char :: "char \<Rightarrow> char" where
  "lower_char c =
     (let n = (of_char c :: nat)
      in if (65 \<le> n \<and> n \<le> 90) \<or> (192 \<le> n \<and> n \<le> 222 \<and> n \<noteq> 215)
         then char_of (n + 32) else c)"

definition lower :: "string \<Rightarrow> string" where
  "lower s = map lower_char s"

text \<open>\<open>starts_with p s\<close> is \<open>s.startswith(p)\<close>; \<open>str_in p s\<close> is Python's \<open>p in s\<close>.\<close>

fun starts_with :: "'a list \<Rightarrow> 'a list \<Rightarrow> bool" where
  "starts_with [] s = True"
| "starts_with (a # p) [] = False"
| "starts_with (a # p) (b # s) = (a = b \<and> starts_with p s)"

fun str_in :: "'a list \<Rightarrow> 'a list \<Rightarrow> bool" where
  "str_in p [] = (p = [])"
| "str_in p (c # s) = (starts_with p (c # s) \<or> str_in p s)"

text \<open>
  \<open>slice_from i xs\<close> is the Python slice \<open>xs[i:]\<close>: a negative start counts from the
  end, and the start is clamped to the range of the list.
\<close>

definition slice_from :: "int \<Rightarrow> 'a list \<Rightarrow> 'a list" where
  "slice_from i xs =
     (let n = int (length xs);
          start = (if i < 0 then max (n + i) 0 else min i n)
      in drop (nat start) xs)"

text \<open>Truthiness of a value that is \<open>None\<close> or a string: \<open>None\<close> and \<open>""\<close> are falsy.\<close>

definition truthy :: "string option \<Rightarrow> bool" where
  "truthy v = (case v of None \<Rightarrow> False | Some s \<Rightarrow> s \<noteq> [])"

section \<open>Configuration, collaborators and state\<close>

text \<open>
  The entries of \<open>config.json\<close> that the pipeline reads. \<open>custom_commands\<close> is a Python
  dict iterated with \<open>items()\<close>, that is in declaration order: an association list.
\<close>

record config =
  default_language :: string
  translation_enabled :: bool
  max_history :: int
  exit_commands :: "string list"
  custom_commands :: "(string \<times> string list) list"

text \<open>\<open>builtin_handlers\<close>: the dispatch table from command-type label to handler.\<close>

type_synonym handlers = "string \<rightharpoonup> (string \<Rightarrow> string)"

text \<open>A Python exception raised by an external library, with its message.\<close>

datatype error = Error string

text \<open>
  The external libraries: \<open>langdetect.detect\<close>, the Google translator (text, source code,
  destination code), the tokenizer's \<open>encode\<close>, the model's \<open>generate\<close> (given the stored
  \<open>chat_history_ids\<close> and the new input ids, which the code concatenates first) and the
  tokenizer's \<open>decode\<close> of the part of the output after the input. Each may raise.
\<close>

record 'tok backend =
  detect :: "string \<Rightarrow> error + string"
  google_translate :: "string \<Rightarrow> string \<Rightarrow> string \<Rightarrow> error + string"
  encode :: "string \<Rightarrow> error + 'tok"
  generate :: "'tok option \<Rightarrow> 'tok \<Rightarrow> error + 'tok"
  decode :: "'tok option \<Rightarrow> 'tok \<Rightarrow> 'tok \<Rightarrow> error + string"

text \<open>The calls made to the external libraries, in order.\<close>

datatype call =
    DetectCall string
  | TranslateCall string string string
  | EncodeCall string
  | GenerateCall
  | DecodeCall

text \<open>The mutable fields of \<open>Chatbot\<close>.\<close>

record 'tok chatbot =
  conversation_history :: "string list"
  chat_history_ids :: "'tok option"

section \<open>CommandHandler\<close>

text \<open>
  The inner loop of \<open>handle_command\<close> over the patterns of one command-type: a matching
  pattern returns the handler's output when the type has a handler, and otherwise the loop
  goes on.
\<close>

fun match_patterns :: "handlers \<Rightarrow> string \<Rightarrow> string \<Rightarrow> string list \<Rightarrow> string option" where
  "match_patterns hs user_input command_type [] = None"
| "match_patterns hs user_input command_type (pattern # patterns) =
     (if str_in (lower pattern) (lower user_input) then
        (case hs command_type of
           Some handler \<Rightarrow> Some (handler user_input)
         | None \<Rightarrow> match_patterns hs user_input command_type patterns)
      else match_patterns hs user_input command_type patterns)"

text \<open>The outer loop over \<open>custom_commands.items()\<close>.\<close>

fun match_commands :: "handlers \<Rightarrow> string \<Rightarrow> (string \<times> string list) list \<Rightarrow> string option" where
  "match_commands hs user_input [] = None"
| "match_commands hs user_input ((command_type, patterns) # rest) =
     (case match_patterns hs user_input command_type patterns of
        Some r \<Rightarrow> Some r
      | None \<Rightarrow> match_commands hs user_input rest)"

definition handle_command :: "config \<Rightarrow> handlers \<Rightarrow> string \<Rightarrow> string option" where
  "handle_command cfg hs user_input =
     (if user_input = [] then None
      else if lower user_input \<in> set (exit_commands cfg) then Some ''Goodbye!''
      else match_commands hs user_input (custom_commands cfg))"

text \<open>\<open>add_custom_command_handler\<close> returns its boolean and the updated dispatch table.\<close>

definition add_custom_command_handler ::
  "config \<Rightarrow> handlers \<Rightarrow> string \<Rightarrow> (string \<Rightarrow> string) \<Rightarrow> bool \<times> handlers" where
  "add_custom_command_handler cfg hs command_type handler_function =
     (if command_type \<notin> fst ` set (custom_commands cfg) then (False, hs)
      else (True, hs(command_type \<mapsto> handler_function)))"

section \<open>Translator\<close>

text \<open>Every function returns its value together with the external calls it made.\<close>

definition detect_language :: "'tok backend \<Rightarrow> string \<Rightarrow> string \<Rightarrow> string \<times> call list" where
  "detect_language be dl text =
     (case detect be text of
        Inr detected \<Rightarrow> (detected, [DetectCall text])
      | Inl e \<Rightarrow> (dl, [DetectCall text]))"

definition translate ::
  "'tok backend \<Rightarrow> string \<Rightarrow> string \<Rightarrow> string option \<Rightarrow> string \<Rightarrow> string \<times> call list" where
  "translate be dl text source_lang target_lang =
     (if text = [] then ([], [])
      else
        (case (case source_lang of
                 None \<Rightarrow> detect_language be dl text
               | Some s \<Rightarrow> (s, [])) of
           (src, c1) \<Rightarrow>
             if src = target_lang then (text, c1)
             else
               (case google_translate be text src target_lang of
                  Inr translation \<Rightarrow> (translation, c1 @ [TranslateCall text src target_lang])
                | Inl e \<Rightarrow> (text, c1 @ [TranslateCall text src target_lang]))))"

definition translate_to_english ::
  "'tok backend \<Rightarrow> string \<Rightarrow> string \<Rightarrow> (string \<times> string) \<times> call list" where
  "translate_to_english be dl text =
     (case detect_language be dl text of
        (detected_lang, c1) \<Rightarrow>
          if detected_lang = ''en'' then ((detected_lang, text), c1)
          else
            (case translate be dl text (Some detected_lang) ''en'' of
               (translated, c2) \<Rightarrow> ((detected_lang, translated), c1 @ c2)))"

definition translate_from_english ::
  "'tok backend \<Rightarrow> string \<Rightarrow> string \<Rightarrow> string \<Rightarrow> string \<times> call list" where
  "translate_from_english be dl text target_lang =
     (if target_lang = ''en'' then (text, [])
      else translate be dl text (Some ''en'') target_lang)"

section \<open>Chatbot.process_input\<close>

text \<open>
  Lines 84 to 88: the detected language and the text handed to the model. The language is
  \<open>None\<close> when the caller gave none and translation is disabled.
\<close>

definition pivot_input ::
  "config \<Rightarrow> 'tok backend \<Rightarrow> string \<Rightarrow> string option \<Rightarrow> (string option \<times> string) \<times> call list" where
  "pivot_input cfg be user_input input_language =
     (if translation_enabled cfg \<and> \<not> truthy input_language then
        (case translate_to_english be (default_language cfg) user_input of
           ((detected_language, translated_input), c) \<Rightarrow>
             ((Some detected_language, translated_input), c))
      else ((input_language, user_input), []))"

text \<open>Lines 91 to 93: append, then keep the tail when the list is longer than the bound.\<close>

definition append_history :: "int \<Rightarrow> string list \<Rightarrow> string \<Rightarrow> string list" where
  "append_history k history translated_input =
     (let h = history @ [translated_input]
      in if int (length h) > k then slice_from (- k) h else h)"

text \<open>
  Lines 124 to 128. When translation is enabled the language is never \<open>None\<close> (it came from
  the translator or from a truthy \<open>input_language\<close>), so the \<open>None\<close> branch is not reached.
\<close>

definition translate_back ::
  "config \<Rightarrow> 'tok backend \<Rightarrow> string option \<Rightarrow> string \<Rightarrow> string \<times> call list" where
  "translate_back cfg be detected_language response =
     (if translation_enabled cfg \<and> detected_language \<noteq> Some ''en'' then
        (case detected_language of
           Some l \<Rightarrow> translate_from_english be (default_language cfg) response l
         | None \<Rightarrow> (response, []))
      else (response, []))"

text \<open>
  Lines 83 to 128, the path of an input that is not a command. An exception of the
  tokenizer or of the model is not caught: it is the result, with the state as it was when
  it was raised.
\<close>

definition generate_response ::
  "config \<Rightarrow> 'tok backend \<Rightarrow> 'tok chatbot \<Rightarrow> string \<Rightarrow> string option
     \<Rightarrow> (error + string) \<times> 'tok chatbot \<times> call list" where
  "generate_response cfg be st user_input input_language =
     (case pivot_input cfg be user_input input_language of
        ((detected_language, translated_input), c1) \<Rightarrow>
          (let st1 = st\<lparr>conversation_history :=
                          append_history (max_history cfg) (conversation_history st) translated_input\<rparr>;
               c2 = c1 @ [EncodeCall translated_input]
           in case encode be translated_input of
                Inl e \<Rightarrow> (Inl e, st1, c2)
              | Inr new_user_input_ids \<Rightarrow>
                  (case generate be (chat_history_ids st1) new_user_input_ids of
                     Inl e \<Rightarrow> (Inl e, st1, c2 @ [GenerateCall])
                   | Inr out \<Rightarrow>
                       (let st2 = st1\<lparr>chat_history_ids := Some out\<rparr>;
                            c3 = c2 @ [GenerateCall, DecodeCall]
                        in case decode be (chat_history_ids st1) new_user_input_ids out of
                             Inl e \<Rightarrow> (Inl e, st2, c3)
                           | Inr response \<Rightarrow>
                               (case translate_back cfg be detected_language response of
                                  (r, c4) \<Rightarrow> (Inr r, st2, c3 @ c4))))))"

definition process_input ::
  "config \<Rightarrow> handlers \<Rightarrow> 'tok backend \<Rightarrow> 'tok chatbot \<Rightarrow> string \<Rightarrow> string option
     \<Rightarrow> (error + string) \<times> 'tok chatbot \<times> call list" where
  "process_input cfg hs be st user_input input_language =
     (case handle_command cfg hs user_input of
        Some command_response \<Rightarrow>
          if command_response \<noteq> [] then (Inr command_response, st, [])
          else generate_response cfg be st user_input input_language
      | None \<Rightarrow> generate_response cfg be st user_input input_language)"

text \<open>
  A session: the state of a new \<open>Chatbot\<close>, and a sequence of turns (utterance and
  optional language) processed one after the other; the caller goes on after a failed turn.
\<close>

definition init_chatbot :: "'tok chatbot" where
  "init_chatbot = \<lparr>conversation_history = [], chat_history_ids = None\<rparr>"

fun process_inputs ::
  "config \<Rightarrow> handlers \<Rightarrow> 'tok backend \<Rightarrow> 'tok chatbot \<Rightarrow> (string \<times> string option) list
     \<Rightarrow> 'tok chatbot" where
  "process_inputs cfg hs be st [] = st"
| "process_inputs cfg hs be st ((user_input, input_language) # turns) =
     process_inputs cfg hs be
       (fst (snd (process_input cfg hs be st user_input input_language))) turns"

section \<open>CommandHandler on Unicode text\<close>







section \<open>Notions used to state the properties\<close>

text \<open>
  The outcome of lines 96 to 122 for the text handed to the model: the first exception
  raised by \<open>encode\<close>, \<open>generate\<close> or \<open>decode\<close>, or the decoded reply.
\<close>

definition run_generation :: "'tok backend \<Rightarrow> 'tok option \<Rightarrow> string \<Rightarrow> error + string" where
  "run_generation be ids translated_input =
     (case encode be translated_input of
        Inl e \<Rightarrow> Inl e
      | Inr new_user_input_ids \<Rightarrow>
          (case generate be ids new_user_input_ids of
             Inl e \<Rightarrow> Inl e
           | Inr out \<Rightarrow> decode be ids new_user_input_ids out))"

text \<open>Some trigger phrase of the list occurs in the utterance, as line 65 tests it.\<close>

definition any_pattern_in :: "string list \<Rightarrow> string \<Rightarrow> bool" where
  "any_pattern_in patterns user_input =
     list_ex (\<lambda>pattern. str_in (lower pattern) (lower user_input)) patterns"

text \<open>A command-type that cannot answer: it has no handler or none of its phrases occurs.\<close>

definition passes_over :: "handlers \<Rightarrow> string \<Rightarrow> string \<times> string list \<Rightarrow> bool" where
  "passes_over hs user_input entry =
     (hs (fst entry) = None \<or> \<not> any_pattern_in (snd entry) user_input)"

text \<open>The text that a turn appends to the history (the second component of line 88).\<close>

definition pivot_text :: "config \<Rightarrow> 'tok backend \<Rightarrow> string \<times> string option \<Rightarrow> string" where
  "pivot_text cfg be turn = snd (fst (pivot_input cfg be (fst turn) (snd turn)))"

text \<open>A turn that \<open>process_input\<close> does not answer as a command.\<close>

definition non_command :: "config \<Rightarrow> handlers \<Rightarrow> string \<times> string option \<Rightarrow> bool" where
  "non_command cfg hs turn = (\<not> truthy (handle_command cfg hs (fst turn)))"

section \<open>Concrete configurations and collaborators\<close>

definition time_handler :: "string \<Rightarrow> string" where
  "time_handler command = ''The current time is 12:00 PM.''"

definition silent_handler :: "string \<Rightarrow> string" where
  "silent_handler command = []"

definition joke_handler :: "string \<Rightarrow> string" where
  "joke_handler command = ''X''"

definition demo_handlers :: handlers where
  "demo_handlers = [''time'' \<mapsto> time_handler]"

definition silent_handlers :: handlers where
  "silent_handlers = [''time'' \<mapsto> time_handler, ''joke'' \<mapsto> silent_handler]"

definition full_handlers :: handlers where
  "full_handlers = [''time'' \<mapsto> time_handler, ''joke'' \<mapsto> joke_handler]"

definition demo_config :: config where
  "demo_config =
     \<lparr>default_language = ''en'', translation_enabled = True, max_history = 2,
      exit_commands = [''bye'', ''goodbye''],
      custom_commands = [(''joke'', [''Joke'']), (''time'', [''what time'', ''time''])]\<rparr>"

text \<open>
  A backend that works: every text is detected as French, translation marks the text with
  the destination code, tokens are characters, the model answers \<open>ok\<close>.
\<close>

definition working_backend :: "string backend" where
  "working_backend =
     \<lparr>detect = (\<lambda>text. Inr ''fr''),
      google_translate = (\<lambda>text src dest. Inr (dest @ '':'' @ text)),
      encode = (\<lambda>text. Inr text),
      generate = (\<lambda>ids new. Inr ((case ids of None \<Rightarrow> [] | Some h \<Rightarrow> h) @ new @ ''ok'')),
      decode = (\<lambda>ids new out.
                  Inr (drop (length ((case ids of None \<Rightarrow> [] | Some h \<Rightarrow> h) @ new)) out))\<rparr>"

text \<open>The same backend with detection and translation out of service.\<close>

definition offline_backend :: "string backend" where
  "offline_backend =
     working_backend
       \<lparr>detect := (\<lambda>text. Inl (Error ''no features in text'')),
        google_translate := (\<lambda>text src dest. Inl (Error ''connection refused''))\<rparr>"

text \<open>The same backend with a model that raises.\<close>

definition broken_model_backend :: "string backend" where
  "broken_model_backend =
     working_backend\<lparr>generate := (\<lambda>ids new. Inl (Error ''CUDA out of memory''))\<rparr>"

text \<open>The same backend with English detected.\<close>

definition english_backend :: "string backend" where
  "english_backend = working_backend\<lparr>detect := (\<lambda>text. Inr ''en'')\<rparr>"

text \<open>The working backend with a detection that raises; translation is in service.\<close>

definition undetected_backend :: "string backend" where
  "undetected_backend =
     working_backend\<lparr>detect := (\<lambda>text. Inl (Error ''no features in text''))\<rparr>"





section \<open>Facts about the primitives\<close>



lemma slice_from_neg: "1 \<le> k \<Longrightarrow> slice_from (- k) xs = drop (length xs - nat k) xs"
  by (auto simp: slice_from_def Let_def max_def nat_diff_distrib' intro: arg_cong[where f="\<lambda>n. drop n xs"])

lemma append_history_pos:
  "1 \<le> k \<Longrightarrow> append_history k h x = drop (Suc (length h) - nat k) (h @ [x])"
  by (auto simp: append_history_def Let_def slice_from_neg)


section \<open>Facts about a turn that is not a command\<close>

lemma generate_response_history:
  "conversation_history (fst (snd (generate_response cfg be st u il))) =
     append_history (max_history cfg) (conversation_history st) (pivot_text cfg be (u, il))"
  by (simp add: generate_response_def pivot_text_def Let_def split: prod.splits sum.splits)

lemma generate_response_result:
  assumes "pivot_input cfg be u il = ((d, t), c)"
  shows "fst (generate_response cfg be st u il) =
           (case run_generation be (chat_history_ids st) t of
              Inl e \<Rightarrow> Inl e
            | Inr response \<Rightarrow> Inr (fst (translate_back cfg be d response)))"
  using assms
  by (simp add: generate_response_def run_generation_def Let_def split: prod.splits sum.splits)

lemma process_input_non_command:
  "non_command cfg hs (u, il) \<Longrightarrow>
     process_input cfg hs be st u il = generate_response cfg be st u il"
  by (auto simp: non_command_def process_input_def truthy_def split: option.splits)

text \<open>
  With a bound of at least one, the history after a run of turns that are not commands is
  the tail of everything appended.
\<close>

lemma drop_append_short: "a \<le> length l \<Longrightarrow> drop a l @ ys = drop a (l @ ys)"
  by simp

lemma drop_tail_step:
  assumes "a = length l - k"
  shows "drop (length (drop a l) + n - k) (drop a l @ ys) = drop (length l + n - k) (l @ ys)"
proof -
  have "a \<le> length l" using assms by simp
  then have "drop a l @ ys = drop a (l @ ys)" by (rule drop_append_short)
  then have "drop (length (drop a l) + n - k) (drop a l @ ys) =
               drop (length (drop a l) + n - k + a) (l @ ys)"
    by (simp only: drop_drop)
  moreover have "length (drop a l) + n - k + a = length l + n - k"
    unfolding length_drop using assms by arith
  ultimately show ?thesis by (simp only:)
qed

lemma process_inputs_history:
  assumes "1 \<le> max_history cfg" and "list_all (non_command cfg hs) turns"
    and "length (conversation_history st) \<le> nat (max_history cfg)"
  shows "conversation_history (process_inputs cfg hs be st turns) =
           drop (length (conversation_history st) + length turns - nat (max_history cfg))
             (conversation_history st @ map (pivot_text cfg be) turns)"
  using assms(2,3)
proof (induction turns arbitrary: st)
  case Nil
  then show ?case by simp
next
  case (Cons turn turns)
  obtain u il where turn: "turn = (u, il)" by (cases turn)
  let ?k = "nat (max_history cfg)"
  let ?h = "conversation_history st"
  let ?st = "fst (snd (process_input cfg hs be st u il))"
  from Cons.prems turn have nc: "non_command cfg hs (u, il)" by simp
  have h1: "conversation_history ?st = drop (Suc (length ?h) - ?k) (?h @ [pivot_text cfg be (u, il)])"
    using nc assms(1)
    by (simp add: process_input_non_command generate_response_history append_history_pos)
  have len: "length (conversation_history ?st) \<le> ?k"
    using Cons.prems(2) by (simp add: h1)
  have "conversation_history (process_inputs cfg hs be st (turn # turns)) =
          conversation_history (process_inputs cfg hs be ?st turns)"
    by (simp add: turn)
  also have "\<dots> = drop (length (conversation_history ?st) + length turns - ?k)
                     (conversation_history ?st @ map (pivot_text cfg be) turns)"
    using Cons.prems(1) len by (intro Cons.IH) simp_all
  also have "\<dots> = drop (length ?h + length (turn # turns) - ?k)
                     (?h @ map (pivot_text cfg be) (turn # turns))"
    unfolding h1 turn
    using drop_tail_step [of "Suc (length ?h) - ?k" "?h @ [pivot_text cfg be (u, il)]" ?k
        "length turns" "map (pivot_text cfg be) turns"]
    by simp
  finally show ?case .
qed

lemma history_bound_positive:
  assumes "1 \<le> max_history cfg" and "list_all (non_command cfg hs) turns"
  shows "conversation_history (process_inputs cfg hs be init_chatbot turns) =
           drop (length turns - nat (max_history cfg)) (map (pivot_text cfg be) turns)"
    and "length (conversation_history (process_inputs cfg hs be init_chatbot turns)) =
           min (length turns) (nat (max_history cfg))"
proof -
  show "conversation_history (process_inputs cfg hs be init_chatbot turns) =
           drop (length turns - nat (max_history cfg)) (map (pivot_text cfg be) turns)"
    using process_inputs_history [OF assms, of init_chatbot be]
    by (simp add: init_chatbot_def)
  then show "length (conversation_history (process_inputs cfg hs be init_chatbot turns)) =
           min (length turns) (nat (max_history cfg))"
    by simp
qed

section \<open>Facts about command matching and translation\<close>

lemma match_patterns_eq:
  "match_patterns hs u t ps =
     (case hs t of
        None \<Rightarrow> None
      | Some h \<Rightarrow> if any_pattern_in ps u then Some (h u) else None)"
  by (induction ps) (auto simp: any_pattern_in_def split: option.splits)

lemma match_commands_passes_over:
  "list_all (passes_over hs u) pre \<Longrightarrow>
     match_commands hs u (pre @ rest) = match_commands hs u rest"
  by (induction pre) (auto simp: passes_over_def match_patterns_eq split: option.splits)

lemma translate_to_english_detect:
  "fst (fst (translate_to_english be dl text)) = fst (detect_language be dl text)"
  by (auto simp: translate_to_english_def split: prod.splits)

lemma translate_degrades:
  "isl (google_translate be text src tgt) \<Longrightarrow> fst (translate be dl text (Some src) tgt) = text"
  by (auto simp: translate_def isl_def)

lemma translate_back_degrades:
  assumes "\<forall>dest. isl (google_translate be response ''en'' dest)"
  shows "fst (translate_back cfg be d response) = response"
  using assms
  by (auto simp: translate_back_def translate_from_english_def translate_degrades
      split: option.splits)



section \<open>The claims\<close>

text \<open>
  C1 (history bound). The claim: for every \<open>max_history\<close> value \<open>k\<close> and every sequence of
  \<open>N\<close> turns that are not commands, the history has length \<open>min N k\<close> afterwards and is
  the last \<open>min N k\<close> appended texts. It holds for every \<open>k\<close> of at least one (lemma
  \<open>history_bound_positive\<close>). At \<open>k = 0\<close> the test of line 92 fires and the slice of
  line 93 is \<open>history[-0:]\<close>, which is the whole list: after two turns the history holds
  both texts, where the claim says it is empty.
\<close>

theorem history_unbounded_at_zero:
  "non_command (demo_config\<lparr>max_history := 0\<rparr>) demo_handlers (''hello'', None) \<and>
   non_command (demo_config\<lparr>max_history := 0\<rparr>) demo_handlers (''how are you'', None) \<and>
   conversation_history
     (process_inputs (demo_config\<lparr>max_history := 0\<rparr>) demo_handlers english_backend
        init_chatbot [(''hello'', None), (''how are you'', None)]) =
     [''hello'', ''how are you'']"
  by code_simp

text \<open>
  C2 (command short-circuit), as stated: whenever the command matcher returns a command
  response, \<open>process_input\<close> returns it at once and leaves history and context alone. The
  test of line 80 is a truthiness test, so a handler whose output is the empty string is
  not answered as a command: the utterance is appended and the model is called.
\<close>

theorem command_short_circuit_counterexample:
  "handle_command demo_config silent_handlers ''a joke'' = Some [] \<and>
   process_input demo_config silent_handlers english_backend init_chatbot ''a joke'' None =
     (Inr ''ok'',
      \<lparr>conversation_history = [''a joke''], chat_history_ids = Some ''a jokeok''\<rparr>,
      [DetectCall ''a joke'', EncodeCall ''a joke'', GenerateCall, DecodeCall])"
  by code_simp

text \<open>
  C2, amended: for every utterance for which \<open>handle_command\<close> returns a non-empty
  response, \<open>process_input\<close> returns that response, the state (history and
  \<open>chat_history_ids\<close>) is unchanged and no external library is called.
\<close>

theorem command_short_circuit:
  assumes "handle_command cfg hs user_input = Some command_response"
    and "command_response \<noteq> []"
  shows "process_input cfg hs be st user_input input_language = (Inr command_response, st, [])"
  using assms by (simp add: process_input_def)

theorem command_short_circuit_witness:
  "handle_command demo_config demo_handlers ''What TIME is it'' =
     Some ''The current time is 12:00 PM.'' \<and>
   process_input demo_config demo_handlers working_backend init_chatbot ''What TIME is it'' None =
     (Inr ''The current time is 12:00 PM.'', init_chatbot, [])"
proof -
  have h: "handle_command demo_config demo_handlers ''What TIME is it'' =
             Some ''The current time is 12:00 PM.''"
    by code_simp
  have ne: "''The current time is 12:00 PM.'' \<noteq> []" by simp
  from command_short_circuit [OF h ne] h show ?thesis by blast
qed

text \<open>
  C3 (first match wins), as stated: when the utterance contains trigger phrases of two
  command-types, the handler of the type declared first is invoked and no later type is
  checked. Line 70 guards the call: a type that matches but has no handler is passed
  over and the loops go on, so here the handler of the second type answers.
\<close>

theorem first_match_wins_counterexample:
  "custom_commands demo_config = [(''joke'', [''Joke'']), (''time'', [''what time'', ''time''])] \<and>
   any_pattern_in [''Joke''] ''joke time'' \<and>
   any_pattern_in [''what time'', ''time''] ''joke time'' \<and>
   demo_handlers ''joke'' = None \<and>
   handle_command demo_config demo_handlers ''joke time'' = Some (time_handler ''joke time'')"
  by code_simp

text \<open>
  C3, amended: for every non-empty utterance that is not an exit phrase, the handler
  invoked is that of the first command-type, in configuration order, that has both a
  trigger phrase occurring in the utterance and a registered handler; the types declared
  after it (\<open>post\<close>, arbitrary) are not checked.
\<close>

theorem first_match_wins:
  assumes "user_input \<noteq> []"
    and "lower user_input \<notin> set (exit_commands cfg)"
    and "custom_commands cfg = pre @ (command_type, patterns) # post"
    and "list_all (passes_over hs user_input) pre"
    and "hs command_type = Some handler"
    and "any_pattern_in patterns user_input"
  shows "handle_command cfg hs user_input = Some (handler user_input)"
proof -
  have "match_commands hs user_input (custom_commands cfg) =
          match_commands hs user_input ((command_type, patterns) # post)"
    unfolding assms(3) using assms(4) by (rule match_commands_passes_over)
  also have "\<dots> = Some (handler user_input)"
    using assms(5,6) by (simp add: match_patterns_eq)
  finally show ?thesis using assms(1,2) by (simp add: handle_command_def)
qed

theorem first_match_wins_witness:
  "any_pattern_in [''Joke''] ''what time is the joke'' \<and>
   any_pattern_in [''what time'', ''time''] ''what time is the joke'' \<and>
   handle_command demo_config full_handlers ''what time is the joke'' =
     Some (joke_handler ''what time is the joke'')"
proof -
  have 1: "''what time is the joke'' \<noteq> []" by simp
  have 2: "lower ''what time is the joke'' \<notin> set (exit_commands demo_config)" by code_simp
  have 3: "custom_commands demo_config =
             [] @ (''joke'', [''Joke'']) # [(''time'', [''what time'', ''time''])]"
    by (simp add: demo_config_def)
  have 4: "list_all (passes_over full_handlers ''what time is the joke'') []" by simp
  have 5: "full_handlers ''joke'' = Some joke_handler" by (simp add: full_handlers_def)
  have 6: "any_pattern_in [''Joke''] ''what time is the joke''" by code_simp
  have 7: "any_pattern_in [''what time'', ''time''] ''what time is the joke''" by code_simp
  from first_match_wins [OF 1 2 3 4 5 6] 6 7 show ?thesis by blast
qed

text \<open>
  C4 (fatal generation errors): for every utterance that is not answered as a command, if
  the tokenizer or the model raises while the reply is generated, the result of
  \<open>process_input\<close> is that error, and no reply text.
\<close>

theorem generation_error_propagates:
  assumes "non_command cfg hs (user_input, input_language)"
    and "run_generation be (chat_history_ids st)
           (pivot_text cfg be (user_input, input_language)) = Inl e"
  shows "fst (process_input cfg hs be st user_input input_language) = Inl e"
proof -
  obtain d t c where p: "pivot_input cfg be user_input input_language = ((d, t), c)"
    by (metis surj_pair)
  then have "pivot_text cfg be (user_input, input_language) = t"
    by (simp add: pivot_text_def)
  with assms(2) have "run_generation be (chat_history_ids st) t = Inl e" by simp
  then have "fst (generate_response cfg be st user_input input_language) = Inl e"
    by (simp add: generate_response_result [OF p])
  then show ?thesis by (simp add: process_input_non_command [OF assms(1)])
qed

theorem generation_error_propagates_witness:
  "non_command demo_config demo_handlers (''Bonjour'', None) \<and>
   fst (process_input demo_config demo_handlers broken_model_backend init_chatbot
          ''Bonjour'' None) = Inl (Error ''CUDA out of memory'')"
proof -
  have 1: "non_command demo_config demo_handlers (''Bonjour'', None)" by code_simp
  have 2: "run_generation broken_model_backend (chat_history_ids init_chatbot)
             (pivot_text demo_config broken_model_backend (''Bonjour'', None)) =
           Inl (Error ''CUDA out of memory'')"
    by code_simp
  from generation_error_propagates [OF 1 2] 1 show ?thesis by blast
qed

text \<open>
  C5 (degrade on failure), as stated: when the translation call or the language detection
  raises, the translator returns the original text unchanged. When the detection raises,
  \<open>detect_language\<close> answers the default language, and \<open>translate_to_english\<close> goes on
  with it as the source language: with a default other than \<open>en\<close> and the translation
  service at work, the text comes back translated.
\<close>

theorem translator_degrades_counterexample:
  "detect undetected_backend ''Bonjour'' = Inl (Error ''no features in text'') \<and>
   translate_to_english undetected_backend ''fr'' ''Bonjour'' =
     ((''fr'', ''en:Bonjour''),
      [DetectCall ''Bonjour'', TranslateCall ''Bonjour'' ''fr'' ''en''])"
  by code_simp

text \<open>
  C5, amended. No error of the detection or of the translation call is propagated. When
  the detection raises, \<open>detect_language\<close> answers the default language code, and so does
  \<open>translate_to_english\<close>, whose text is then the original one when the default is \<open>en\<close>
  and the translation from the default language otherwise. When the translation call
  raises, \<open>translate\<close> (with a given or a detected source language),
  \<open>translate_to_english\<close> and \<open>translate_from_english\<close> return the original text unchanged,
  and a turn whose reply cannot be translated back returns the untranslated reply.
\<close>

theorem translator_degrades:
  "(detect be text = Inl e1 \<longrightarrow>
      detect_language be dl text = (dl, [DetectCall text]) \<and>
      fst (fst (translate_to_english be dl text)) = dl \<and>
      translate_to_english be ''en'' text = ((''en'', text), [DetectCall text])) \<and>
   (detect be' text' = Inl e5 \<and> dl' \<noteq> ''en'' \<and> text' \<noteq> [] \<and>
    google_translate be' text' dl' ''en'' = Inr translation \<longrightarrow>
      translate_to_english be' dl' text' =
        ((dl', translation), [DetectCall text', TranslateCall text' dl' ''en''])) \<and>
   (google_translate be text src tgt = Inl e2 \<longrightarrow>
      fst (translate be dl text (Some src) tgt) = text) \<and>
   (google_translate be text (fst (detect_language be dl text)) tgt = Inl e3 \<longrightarrow>
      fst (translate be dl text None tgt) = text) \<and>
   (google_translate be text (fst (detect_language be dl text)) ''en'' = Inl e6 \<longrightarrow>
      snd (fst (translate_to_english be dl text)) = text) \<and>
   (google_translate be text ''en'' tgt = Inl e4 \<longrightarrow>
      fst (translate_from_english be dl text tgt) = text) \<and>
   (non_command cfg hs (user_input, input_language) \<and>
    run_generation be (chat_history_ids st)
      (pivot_text cfg be (user_input, input_language)) = Inr reply \<and>
    (\<forall>dest. isl (google_translate be reply ''en'' dest)) \<longrightarrow>
      fst (process_input cfg hs be st user_input input_language) = Inr reply)"
proof (intro conjI impI)
  assume d: "detect be text = Inl e1"
  then show "detect_language be dl text = (dl, [DetectCall text])"
    by (simp add: detect_language_def)
  then show "fst (fst (translate_to_english be dl text)) = dl"
    by (simp add: translate_to_english_detect)
  from d show "translate_to_english be ''en'' text = ((''en'', text), [DetectCall text])"
    by (simp add: translate_to_english_def detect_language_def)
next
  assume "detect be' text' = Inl e5 \<and> dl' \<noteq> ''en'' \<and> text' \<noteq> [] \<and>
    google_translate be' text' dl' ''en'' = Inr translation"
  then show "translate_to_english be' dl' text' =
        ((dl', translation), [DetectCall text', TranslateCall text' dl' ''en''])"
    by (simp add: translate_to_english_def detect_language_def translate_def)
next
  assume "google_translate be text src tgt = Inl e2"
  then show "fst (translate be dl text (Some src) tgt) = text"
    by (simp add: translate_degrades)
next
  assume "google_translate be text (fst (detect_language be dl text)) tgt = Inl e3"
  then show "fst (translate be dl text None tgt) = text"
    by (auto simp: translate_def split: prod.splits)
next
  assume "google_translate be text (fst (detect_language be dl text)) ''en'' = Inl e6"
  then show "snd (fst (translate_to_english be dl text)) = text"
    by (auto simp: translate_to_english_def translate_def split: prod.splits)
next
  assume "google_translate be text ''en'' tgt = Inl e4"
  then show "fst (translate_from_english be dl text tgt) = text"
    by (simp add: translate_from_english_def translate_degrades)
next
  assume a: "non_command cfg hs (user_input, input_language) \<and>
    run_generation be (chat_history_ids st)
      (pivot_text cfg be (user_input, input_language)) = Inr reply \<and>
    (\<forall>dest. isl (google_translate be reply ''en'' dest))"
  obtain d t c where p: "pivot_input cfg be user_input input_language = ((d, t), c)"
    by (metis surj_pair)
  then have "pivot_text cfg be (user_input, input_language) = t"
    by (simp add: pivot_text_def)
  with a have "run_generation be (chat_history_ids st) t = Inr reply" by simp
  then have "fst (generate_response cfg be st user_input input_language) = Inr reply"
    using a by (simp add: generate_response_result [OF p] translate_back_degrades)
  with a show "fst (process_input cfg hs be st user_input input_language) = Inr reply"
    by (simp add: process_input_non_command)
qed

theorem translator_degrades_witness:
  "detect_language offline_backend ''fr'' ''Bonjour'' = (''fr'', [DetectCall ''Bonjour'']) \<and>
   fst (fst (translate_to_english offline_backend ''fr'' ''Bonjour'')) = ''fr'' \<and>
   translate_to_english offline_backend ''en'' ''Bonjour'' =
     ((''en'', ''Bonjour''), [DetectCall ''Bonjour'']) \<and>
   translate_to_english undetected_backend ''fr'' ''Bonjour'' =
     ((''fr'', ''en:Bonjour''), [DetectCall ''Bonjour'', TranslateCall ''Bonjour'' ''fr'' ''en'']) \<and>
   fst (translate offline_backend ''fr'' ''Bonjour'' (Some ''fr'') ''de'') = ''Bonjour'' \<and>
   fst (translate offline_backend ''fr'' ''Bonjour'' None ''de'') = ''Bonjour'' \<and>
   snd (fst (translate_to_english offline_backend ''fr'' ''Bonjour'')) = ''Bonjour'' \<and>
   fst (translate_from_english offline_backend ''fr'' ''Bonjour'' ''de'') = ''Bonjour'' \<and>
   fst (process_input demo_config demo_handlers offline_backend init_chatbot
          ''Bonjour'' (Some ''fr'')) = Inr ''ok''"
proof -
  have 1: "detect offline_backend ''Bonjour'' = Inl (Error ''no features in text'')"
    by (simp add: offline_backend_def)
  have 2: "detect undetected_backend ''Bonjour'' = Inl (Error ''no features in text'') \<and>
           ''fr'' \<noteq> ''en'' \<and> ''Bonjour'' \<noteq> [] \<and>
           google_translate undetected_backend ''Bonjour'' ''fr'' ''en'' = Inr ''en:Bonjour''"
    by (simp add: undetected_backend_def working_backend_def)
  have 3: "google_translate offline_backend ''Bonjour'' ''fr'' ''de'' =
             Inl (Error ''connection refused'')"
    by (simp add: offline_backend_def)
  have 4: "google_translate offline_backend ''Bonjour''
             (fst (detect_language offline_backend ''fr'' ''Bonjour'')) ''de'' =
             Inl (Error ''connection refused'')"
    by (simp add: offline_backend_def)
  have 5: "google_translate offline_backend ''Bonjour''
             (fst (detect_language offline_backend ''fr'' ''Bonjour'')) ''en'' =
             Inl (Error ''connection refused'')"
    by (simp add: offline_backend_def)
  have 6: "google_translate offline_backend ''Bonjour'' ''en'' ''de'' =
             Inl (Error ''connection refused'')"
    by (simp add: offline_backend_def)
  have 7: "non_command demo_config demo_handlers (''Bonjour'', Some ''fr'') \<and>
           run_generation offline_backend (chat_history_ids init_chatbot)
             (pivot_text demo_config offline_backend (''Bonjour'', Some ''fr'')) = Inr ''ok'' \<and>
           (\<forall>dest. isl (google_translate offline_backend ''ok'' ''en'' dest))"
  proof (intro conjI)
    show "non_command demo_config demo_handlers (''Bonjour'', Some ''fr'')" by code_simp
    show "run_generation offline_backend (chat_history_ids init_chatbot)
             (pivot_text demo_config offline_backend (''Bonjour'', Some ''fr'')) = Inr ''ok''"
      by code_simp
    show "\<forall>dest. isl (google_translate offline_backend ''ok'' ''en'' dest)"
      by (simp add: offline_backend_def)
  qed
  note r = translator_degrades [of offline_backend "''Bonjour''" "Error ''no features in text''"
      "''fr''" undetected_backend "''Bonjour''" "Error ''no features in text''" "''fr''"
      "''en:Bonjour''" "''fr''" "''de''" "Error ''connection refused''"
      "Error ''connection refused''" "Error ''connection refused''"
      "Error ''connection refused''" demo_config demo_handlers "''Bonjour''" "Some ''fr''"
      init_chatbot "''ok''"]
  note a = r [THEN conjunct1, THEN mp, OF 1]
  note b = r [THEN conjunct2, THEN conjunct1, THEN mp, OF 2]
  note c = r [THEN conjunct2, THEN conjunct2, THEN conjunct1, THEN mp, OF 3]
  note d = r [THEN conjunct2, THEN conjunct2, THEN conjunct2, THEN conjunct1, THEN mp, OF 4]
  note e = r [THEN conjunct2, THEN conjunct2, THEN conjunct2, THEN conjunct2, THEN conjunct1,
      THEN mp, OF 5]
  note f = r [THEN conjunct2, THEN conjunct2, THEN conjunct2, THEN conjunct2, THEN conjunct2,
      THEN conjunct1, THEN mp, OF 6]
  note g = r [THEN conjunct2, THEN conjunct2, THEN conjunct2, THEN conjunct2, THEN conjunct2,
      THEN conjunct2, THEN mp, OF 7]
  from a b c d e f g show ?thesis by (intro conjI) (elim conjE; assumption)+
qed

text \<open>
  C6 (exit precedence), as stated: every utterance whose lowercased form is a configured
  exit phrase gets the farewell. Line 53 returns \<open>None\<close> for the empty utterance before the
  exit test, so an empty exit phrase is never honoured.
\<close>

theorem exit_precedence_counterexample:
  "lower [] \<in> set (exit_commands (demo_config\<lparr>exit_commands := [[]]\<rparr>)) \<and>
   handle_command (demo_config\<lparr>exit_commands := [[]]\<rparr>) demo_handlers [] = None"
  by code_simp

text \<open>
  C6, amended: for every non-empty utterance whose lowercased form is exactly a configured
  exit phrase, \<open>handle_command\<close> returns the farewell, whatever the command table and the
  handlers are (so also when the utterance contains a trigger phrase).
\<close>

theorem exit_precedence:
  assumes "user_input \<noteq> []" and "lower user_input \<in> set (exit_commands cfg)"
  shows "handle_command cfg hs user_input = Some ''Goodbye!''"
  using assms by (simp add: handle_command_def)

theorem exit_precedence_witness:
  "any_pattern_in [''what time'', ''time''] ''TIME'' \<and>
   handle_command (demo_config\<lparr>exit_commands := [''time'']\<rparr>) demo_handlers ''TIME'' =
     Some ''Goodbye!''"
proof -
  have 1: "''TIME'' \<noteq> []" by simp
  have 2: "lower ''TIME'' \<in> set (exit_commands (demo_config\<lparr>exit_commands := [''time'']\<rparr>))"
    by code_simp
  have 3: "any_pattern_in [''what time'', ''time''] ''TIME''" by code_simp
  from exit_precedence [OF 1 2] 3 show ?thesis by blast
qed

text \<open>
  C7 (pivot idempotence): when the detected language is \<open>en\<close>, \<open>translate_to_english\<close>
  returns \<open>en\<close> and the text unchanged, and its only external call is the detection; and
  \<open>translate_from_english\<close> with target \<open>en\<close> returns the text unchanged with no external
  call.
\<close>

theorem pivot_idempotence:
  "(fst (detect_language be dl text) = ''en'' \<longrightarrow>
      translate_to_english be dl text = ((''en'', text), [DetectCall text])) \<and>
   translate_from_english be dl text ''en'' = (text, [])"
  by (auto simp: translate_to_english_def translate_from_english_def detect_language_def
      split: sum.splits prod.splits)

theorem pivot_idempotence_witness:
  "fst (detect_language english_backend ''fr'' ''Hello'') = ''en'' \<and>
   translate_to_english english_backend ''fr'' ''Hello'' = ((''en'', ''Hello''), [DetectCall ''Hello'']) \<and>
   translate_from_english english_backend ''fr'' ''Hello'' ''en'' = (''Hello'', [])"
proof -
  have 1: "fst (detect_language english_backend ''fr'' ''Hello'') = ''en''" by code_simp
  from pivot_idempotence [of english_backend "''fr''" "''Hello''"] 1 show ?thesis by blast
qed

text \<open>
  C8 (fail-closed registration): for a label that is not a key of \<open>custom_commands\<close>,
  \<open>add_custom_command_handler\<close> returns \<open>False\<close> and the dispatch table is unchanged; for a
  label that is a key, it returns \<open>True\<close> and the table maps the label to the new handler.
\<close>

theorem registration_fails_closed:
  "(unknown \<notin> fst ` set (custom_commands cfg) \<longrightarrow>
      add_custom_command_handler cfg hs unknown handler_function = (False, hs)) \<and>
   (known \<in> fst ` set (custom_commands cfg) \<longrightarrow>
      add_custom_command_handler cfg hs known handler_function =
        (True, hs(known \<mapsto> handler_function)))"
  by (simp add: add_custom_command_handler_def)

theorem registration_fails_closed_witness:
  "add_custom_command_handler demo_config demo_handlers ''weather'' joke_handler =
     (False, demo_handlers) \<and>
   add_custom_command_handler demo_config demo_handlers ''joke'' joke_handler =
     (True, demo_handlers(''joke'' \<mapsto> joke_handler))"
proof -
  have 1: "''weather'' \<notin> fst ` set (custom_commands demo_config)"
    by (simp add: demo_config_def)
  have 2: "''joke'' \<in> fst ` set (custom_commands demo_config)"
    by (simp add: demo_config_def)
  from registration_fails_closed [of "''weather''" demo_config demo_handlers joke_handler "''joke''"]
    1 2
  show ?thesis by blast
qed

text \<open>
  C9 (empty command response): when \<open>handle_command\<close> returns the empty string,
  \<open>process_input\<close> takes the path of an utterance that is not a command: the translated
  text is appended to the history, and the result is the generated reply (translated back
  when needed), or the error of the generation.
\<close>

theorem empty_response_not_command:
  assumes "handle_command cfg hs user_input = Some []"
    and "pivot_input cfg be user_input input_language = ((detected_language, translated_input), c)"
  shows "process_input cfg hs be st user_input input_language =
           generate_response cfg be st user_input input_language \<and>
         conversation_history (fst (snd (process_input cfg hs be st user_input input_language))) =
           append_history (max_history cfg) (conversation_history st) translated_input \<and>
         fst (process_input cfg hs be st user_input input_language) =
           (case run_generation be (chat_history_ids st) translated_input of
              Inl e \<Rightarrow> Inl e
            | Inr response \<Rightarrow> Inr (fst (translate_back cfg be detected_language response)))"
proof -
  have nc: "non_command cfg hs (user_input, input_language)"
    using assms(1) by (simp add: non_command_def truthy_def)
  have t: "pivot_text cfg be (user_input, input_language) = translated_input"
    using assms(2) by (simp add: pivot_text_def)
  show ?thesis
    using generate_response_history [of cfg be st user_input input_language]
      generate_response_result [OF assms(2), of st]
    by (simp add: process_input_non_command [OF nc] t)
qed

theorem empty_response_not_command_witness:
  "handle_command demo_config silent_handlers ''Tell me a JOKE'' = Some [] \<and>
   process_input demo_config silent_handlers working_backend init_chatbot ''Tell me a JOKE'' None =
     generate_response demo_config working_backend init_chatbot ''Tell me a JOKE'' None \<and>
   conversation_history
     (fst (snd (process_input demo_config silent_handlers working_backend init_chatbot
        ''Tell me a JOKE'' None))) = [''en:Tell me a JOKE''] \<and>
   fst (process_input demo_config silent_handlers working_backend init_chatbot
          ''Tell me a JOKE'' None) = Inr ''fr:ok''"
proof -
  have 1: "handle_command demo_config silent_handlers ''Tell me a JOKE'' = Some []"
    by code_simp
  have 2: "pivot_input demo_config working_backend ''Tell me a JOKE'' None =
             ((Some ''fr'', ''en:Tell me a JOKE''),
              [DetectCall ''Tell me a JOKE'', TranslateCall ''Tell me a JOKE'' ''fr'' ''en''])"
    by code_simp
  have 3: "append_history (max_history demo_config) (conversation_history init_chatbot)
             ''en:Tell me a JOKE'' = [''en:Tell me a JOKE'']"
    by code_simp
  have 4: "(case run_generation working_backend (chat_history_ids init_chatbot)
                  ''en:Tell me a JOKE'' of
              Inl e \<Rightarrow> Inl e
            | Inr response \<Rightarrow>
                Inr (fst (translate_back demo_config working_backend (Some ''fr'') response))) =
           Inr ''fr:ok''"
    by code_simp
  note r = empty_response_not_command [OF 1 2, of init_chatbot]
  have a: "process_input demo_config silent_handlers working_backend init_chatbot
             ''Tell me a JOKE'' None =
           generate_response demo_config working_backend init_chatbot ''Tell me a JOKE'' None"
    using r by (rule conjunct1)
  have b: "conversation_history
             (fst (snd (process_input demo_config silent_handlers working_backend init_chatbot
                ''Tell me a JOKE'' None))) = [''en:Tell me a JOKE'']"
    using r [THEN conjunct2, THEN conjunct1] unfolding 3 .
  have c: "fst (process_input demo_config silent_handlers working_backend init_chatbot
                  ''Tell me a JOKE'' None) = Inr ''fr:ok''"
    using r [THEN conjunct2, THEN conjunct2] unfolding 4 .
  from 1 a b c show ?thesis by (intro conjI)
qed




end
